theory Spec2Isabelle
  imports Main
begin

section \<open>Kinds and the builtin classification table\<close>

text \<open>
  The enumeration \<open>Kind\<close> of the source (an unsigned integer with iota constants,
  \<open>Invalid\<close> being the zero value), in declaration order. The constant \<open>Int\<close> of the
  source is written \<open>IntK\<close>, since \<open>Int\<close> is the input syntax of set intersection.
\<close>

datatype Kind =
    Invalid | Suspense
  | Bool | IntK | Int8 | Int16 | Int32 | Int64
  | Uint | Uint8 | Uint16 | Uint32 | Uint64 | Uintptr
  | Float32 | Float64 | Complex64 | Complex128
  | String
  | Interface | Chan | Array | Slice | Map | Func | Struct | Ptr

text \<open>
  \<open>getBasicKind\<close>: the switch on the identifier; the default branch returns
  \<open>(Invalid, false)\<close>, every other branch leaves \<open>found = true\<close>.
\<close>

definition getBasicKind :: "string \<Rightarrow> Kind \<times> bool" where
  "getBasicKind basicName =
     (if basicName = ''bool'' then (Bool, True)
      else if basicName = ''int'' then (IntK, True)
      else if basicName = ''int8'' then (Int8, True)
      else if basicName = ''int16'' then (Int16, True)
      else if basicName = ''int32'' then (Int32, True)
      else if basicName = ''int64'' then (Int64, True)
      else if basicName = ''uint'' then (Uint, True)
      else if basicName = ''uint8'' then (Uint8, True)
      else if basicName = ''uint16'' then (Uint16, True)
      else if basicName = ''uint32'' then (Uint32, True)
      else if basicName = ''uint64'' then (Uint64, True)
      else if basicName = ''uintptr'' then (Uintptr, True)
      else if basicName = ''float32'' then (Float32, True)
      else if basicName = ''float64'' then (Float64, True)
      else if basicName = ''complex64'' then (Complex64, True)
      else if basicName = ''complex128'' then (Complex128, True)
      else if basicName = ''string'' then (String, True)
      else (Invalid, False))"

section \<open>Nodes\<close>

text \<open>
  A Go \<open>panic\<close> carries its message. An operation that may panic returns
  \<open>panic + 'a\<close>: \<open>Inl\<close> is the panic, which no caller of these operations recovers,
  \<open>Inr\<close> is a returned value.
\<close>

datatype panic = Panic string

text \<open>Function parameters and results.\<close>

record FuncField =
  Name :: string
  TypeName :: string

text \<open>
  \<open>super\<close> is the state shared by every node, and the only implementation of the
  interfaces \<open>Node\<close>, \<open>FuncNode\<close> and \<open>TypeNode\<close>. The pointers \<open>pkgNamePtr\<close> and
  \<open>filenamePtr\<close> point into the owning file and are modelled by the strings they point
  to; \<open>namePtr\<close> and \<open>doc\<close> may be nil. The back-pointer \<open>file\<close> is read by none of
  the operations and is left out. The struct holds no field list, no method set and no
  signature.
\<close>

record super =
  kind :: Kind
  namePtr :: "string option"
  pkgNamePtr :: string
  filenamePtr :: string
  doc :: "string option"

definition Kind_of :: "super \<Rightarrow> Kind" where
  "Kind_of s = kind s"

definition Name_of :: "super \<Rightarrow> string" where
  "Name_of s = (case namePtr s of None \<Rightarrow> [] | Some n \<Rightarrow> n)"

subsection \<open>Kind: Func\<close>

text \<open>
  Each operation first checks the kind and panics on the wrong one; past the check,
  the body is the single statement \<open>panic("aster: (TODO) Coming soon!")\<close>.
\<close>

definition NumParam :: "super \<Rightarrow> panic + int" where
  "NumParam s =
     (if kind s \<noteq> Func then Inl (Panic ''aster: Kind must be aster.Func!'')
      else Inl (Panic ''aster: (TODO) Coming soon!''))"

definition NumResult :: "super \<Rightarrow> panic + int" where
  "NumResult s =
     (if kind s \<noteq> Func then Inl (Panic ''aster: Kind must be aster.Func!'')
      else Inl (Panic ''aster: (TODO) Coming soon!''))"

definition Param :: "super \<Rightarrow> int \<Rightarrow> panic + (FuncField option \<times> bool)" where
  "Param s i =
     (if kind s \<noteq> Func then Inl (Panic ''aster: Kind must be aster.Func!'')
      else Inl (Panic ''aster: (TODO) Coming soon!''))"

definition Result :: "super \<Rightarrow> int \<Rightarrow> panic + (FuncField option \<times> bool)" where
  "Result s i =
     (if kind s \<noteq> Func then Inl (Panic ''aster: Kind must be aster.Func!'')
      else Inl (Panic ''aster: (TODO) Coming soon!''))"

definition IsVariadic :: "super \<Rightarrow> panic + bool" where
  "IsVariadic s =
     (if kind s \<noteq> Func then Inl (Panic ''aster: Kind must be aster.Func!'')
      else Inl (Panic ''aster: (TODO) Coming soon!''))"

definition Recv :: "super \<Rightarrow> panic + (FuncField option \<times> bool)" where
  "Recv s =
     (if kind s \<noteq> Func then Inl (Panic ''aster: Kind must be aster.Func!'')
      else Inl (Panic ''aster: (TODO) Coming soon!''))"

subsection \<open>Type\<close>

text \<open>
  A \<open>FuncNode\<close> or \<open>TypeNode\<close> argument or result is an interface value: \<open>None\<close> is
  nil, \<open>Some s\<close> the node \<open>s\<close>. Go's \<open>error\<close> is modelled by its message.
\<close>

datatype error = Error string

definition IsAssign :: "super \<Rightarrow> panic + bool" where
  "IsAssign s =
     (if kind s = Func then Inl (Panic ''aster: Kind cant not be aster.Func!'')
      else Inl (Panic ''aster: (TODO) Coming soon!''))"

definition NumMethod :: "super \<Rightarrow> panic + int" where
  "NumMethod s =
     (if kind s = Func then Inl (Panic ''aster: Kind cant not be aster.Func!'')
      else Inl (Panic ''aster: (TODO) Coming soon!''))"

definition Method :: "super \<Rightarrow> int \<Rightarrow> panic + (super option \<times> bool)" where
  "Method s i =
     (if kind s = Func then Inl (Panic ''aster: Kind cant not be aster.Func!'')
      else Inl (Panic ''aster: (TODO) Coming soon!''))"

definition MethodByName :: "super \<Rightarrow> string \<Rightarrow> panic + (super option \<times> bool)" where
  "MethodByName s name =
     (if kind s = Func then Inl (Panic ''aster: Kind cant not be aster.Func!'')
      else Inl (Panic ''aster: (TODO) Coming soon!''))"

definition Implements :: "super \<Rightarrow> super option \<Rightarrow> panic + bool" where
  "Implements s u =
     (if kind s = Func then Inl (Panic ''aster: Kind cant not be aster.Func!'')
      else Inl (Panic ''aster: (TODO) Coming soon!''))"

text \<open>
  \<open>addMethod\<close> would return an error and update the receiver; it panics before it
  touches the receiver, so a returned value (which never occurs) is the error together
  with the receiver after the call.
\<close>

definition addMethod :: "super \<Rightarrow> super option \<Rightarrow> panic + (error option \<times> super)" where
  "addMethod s m =
     (if kind s = Func then Inl (Panic ''aster: Kind cant not be aster.Func!'')
      else Inl (Panic ''aster: (TODO) Coming soon!''))"

subsection \<open>Only for Kind = Struct\<close>

text \<open>
  The type \<open>StructField\<close> is named by the source and declared nowhere in it: it is the
  type parameter \<open>'sf\<close>. A result \<open>*StructField\<close> is \<open>'sf option\<close>.
\<close>

definition NumField :: "super \<Rightarrow> panic + int" where
  "NumField s =
     (if kind s \<noteq> Struct then Inl (Panic ''aster: Kind must be aster.Struct!'')
      else Inl (Panic ''aster: (TODO) Coming soon!''))"

definition Field :: "super \<Rightarrow> int \<Rightarrow> panic + 'sf option" where
  "Field s i =
     (if kind s \<noteq> Struct then Inl (Panic ''aster: Kind must be aster.Struct!'')
      else Inl (Panic ''aster: (TODO) Coming soon!''))"

definition FieldByName :: "super \<Rightarrow> string \<Rightarrow> panic + ('sf option \<times> bool)" where
  "FieldByName s name =
     (if kind s \<noteq> Struct then Inl (Panic ''aster: Kind must be aster.Struct!'')
      else Inl (Panic ''aster: (TODO) Coming soon!''))"

subsection \<open>Example nodes\<close>

text \<open>
  A struct type \<open>T\<close>, an interface type \<open>U\<close> and a function \<open>Foo\<close>, as
  \<open>newSuper\<close> builds them for a file \<open>t.go\<close> of package \<open>p\<close>.
\<close>

definition structT :: super where
  "structT = \<lparr>kind = Struct, namePtr = Some ''T'', pkgNamePtr = ''p'',
     filenamePtr = ''t.go'', doc = None\<rparr>"

definition ifaceU :: super where
  "ifaceU = \<lparr>kind = Interface, namePtr = Some ''U'', pkgNamePtr = ''p'',
     filenamePtr = ''t.go'', doc = None\<rparr>"

definition funcFoo :: super where
  "funcFoo = \<lparr>kind = Func, namePtr = Some ''Foo'', pkgNamePtr = ''p'',
     filenamePtr = ''t.go'', doc = None\<rparr>"

section \<open>Formatting and storing\<close>

text \<open>
  \<open>err.Error()\<close>: the message of an error.
\<close>

fun err_Error :: "error \<Rightarrow> string" where
  "err_Error (Error msg) = msg"

text \<open>
  The structs \<open>File\<close>, \<open>Package\<close> and \<open>Module\<close>, with the fields that formatting
  and storing read. \<open>'ast\<close> is the type of syntax nodes (\<open>File_ast\<close> is the embedded
  \<open>*ast.File\<close>), \<open>'fset\<close> the type of position tables; a Go map is a partial function.
  The maps of the source hold pointers to files and packages; here they hold the files
  and packages themselves, so a nil pointer in a map is not modelled.
\<close>

record ('fset, 'ast) File =
  File_ast :: 'ast
  File_FileSet :: 'fset
  File_Filename :: string

record ('fset, 'ast) Package =
  Package_Dir :: string
  Package_Name :: string
  Package_Files :: "string \<rightharpoonup> ('fset, 'ast) File"

record ('fset, 'ast) Module =
  Module_Dir :: string
  Module_Packages :: "string \<rightharpoonup> ('fset, 'ast) Package"

text \<open>
  A \<open>range\<close> over a Go map visits every key once, in an order the runtime chooses.
  The order is an argument: \<open>range_map order m\<close> is the sequence of entries that a
  loop over \<open>m\<close> visits when the runtime chooses \<open>order\<close>, a list of the keys of \<open>m\<close>.
\<close>

definition range_map :: "string list \<Rightarrow> (string \<rightharpoonup> 'v) \<Rightarrow> (string \<times> 'v) list" where
  "range_map order m = List.map_filter (\<lambda>k. map_option (Pair k) (m k)) order"

subsection \<open>Formatting\<close>

text \<open>
  The printer \<open>format.Node\<close> of the Go library is the parameter \<open>fmt\<close>: from a
  position table and a node it gives the bytes it wrote to the buffer and its error
  (\<open>None\<close> is nil). A Go function returning \<open>(string, error)\<close> returns a pair here.
  \<open>goutil.BytesToString\<close> and \<open>goutil.StringToBytes\<close> convert without copying and
  are the identity on the byte sequence.
\<close>

type_synonym ('fset, 'ast) printer = "'fset \<Rightarrow> 'ast \<Rightarrow> string \<times> error option"

definition File_FormatNode ::
  "('fset, 'ast) printer \<Rightarrow> ('fset, 'ast) File \<Rightarrow> 'ast \<Rightarrow> string \<times> error option" where
  "File_FormatNode fmt f node =
     (case fmt (File_FileSet f) node of
        (dst, Some err) \<Rightarrow> ([], Some err)
      | (dst, None) \<Rightarrow> (dst, None))"

definition File_Format ::
  "('fset, 'ast) printer \<Rightarrow> ('fset, 'ast) File \<Rightarrow> string \<times> error option" where
  "File_Format fmt f = File_FormatNode fmt f (File_ast f)"

definition File_String :: "('fset, 'ast) printer \<Rightarrow> ('fset, 'ast) File \<Rightarrow> string" where
  "File_String fmt f =
     (case File_Format fmt f of
        (s, Some err) \<Rightarrow> ''// Formatting error: '' @ err_Error err
      | (s, None) \<Rightarrow> s)"

text \<open>
  \<open>Package.Format\<close>: the loop over \<open>p.Files\<close>, with the map \<open>codes\<close> built so far.
  On the first error it returns the error with the codes collected until then.
\<close>

fun Package_Format_loop ::
  "('fset, 'ast) printer \<Rightarrow> (string \<times> ('fset, 'ast) File) list \<Rightarrow> (string \<rightharpoonup> string)
     \<Rightarrow> (string \<rightharpoonup> string) \<times> error option" where
  "Package_Format_loop fmt [] codes = (codes, None)"
| "Package_Format_loop fmt ((k, v) # rest) codes =
     (case File_Format fmt v of
        (code, Some first) \<Rightarrow> (codes, Some first)
      | (code, None) \<Rightarrow> Package_Format_loop fmt rest (codes(k \<mapsto> code)))"

definition Package_Format ::
  "('fset, 'ast) printer \<Rightarrow> string list \<Rightarrow> ('fset, 'ast) Package
     \<Rightarrow> (string \<rightharpoonup> string) \<times> error option" where
  "Package_Format fmt fo p =
     Package_Format_loop fmt (range_map fo (Package_Files p)) Map.empty"

text \<open>
  \<open>Module.Format\<close>: the loop over \<open>m.Packages\<close>; \<open>fo k\<close> is the order in which the
  files of the package named \<open>k\<close> are visited.
\<close>

fun Module_Format_loop ::
  "('fset, 'ast) printer \<Rightarrow> (string \<Rightarrow> string list) \<Rightarrow> (string \<times> ('fset, 'ast) Package) list
     \<Rightarrow> (string \<rightharpoonup> (string \<rightharpoonup> string))
     \<Rightarrow> (string \<rightharpoonup> (string \<rightharpoonup> string)) \<times> error option" where
  "Module_Format_loop fmt fo [] codes = (codes, None)"
| "Module_Format_loop fmt fo ((k, v) # rest) codes =
     (case Package_Format fmt (fo k) v of
        (subcodes, Some err) \<Rightarrow> (codes, Some err)
      | (subcodes, None) \<Rightarrow> Module_Format_loop fmt fo rest (codes(k \<mapsto> subcodes)))"

definition Module_Format ::
  "('fset, 'ast) printer \<Rightarrow> string list \<Rightarrow> (string \<Rightarrow> string list) \<Rightarrow> ('fset, 'ast) Module
     \<Rightarrow> (string \<rightharpoonup> (string \<rightharpoonup> string)) \<times> error option" where
  "Module_Format fmt po fo m =
     Module_Format_loop fmt fo (range_map po (Module_Packages m)) Map.empty"

subsection \<open>Writing\<close>

text \<open>
  The operating system as \<open>writeFile\<close> uses it, over a state \<open>'w\<close> of the storage and
  a type \<open>'h\<close> of open files: \<open>filepath.Abs\<close> (which reads the working directory),
  \<open>filepath.Dir\<close>, \<open>os.MkdirAll\<close> (with mode 0777), \<open>os.Create\<close> (\<open>Inl\<close> its error,
  \<open>Inr\<close> the open file) and \<open>(*os.File).Write\<close>. A call that fails may still have
  changed the storage, so every call returns the storage after it.
\<close>

record ('w, 'h) env =
  filepath_Abs :: "'w \<Rightarrow> string \<Rightarrow> string \<times> error option"
  filepath_Dir :: "string \<Rightarrow> string"
  os_MkdirAll :: "string \<Rightarrow> 'w \<Rightarrow> error option \<times> 'w"
  os_Create :: "string \<Rightarrow> 'w \<Rightarrow> (error + 'h) \<times> 'w"
  File_Write :: "'h \<Rightarrow> string \<Rightarrow> 'w \<Rightarrow> error option \<times> 'w"

definition writeFile ::
  "('w, 'h) env \<Rightarrow> string \<Rightarrow> string \<Rightarrow> 'w \<Rightarrow> error option \<times> 'w" where
  "writeFile os filename text w =
     (case filepath_Abs os w filename of
        (filename', Some err) \<Rightarrow> (Some err, w)
      | (filename', None) \<Rightarrow>
          (case os_MkdirAll os (filepath_Dir os filename') w of
             (Some err, w1) \<Rightarrow> (Some err, w1)
           | (None, w1) \<Rightarrow>
               (case os_Create os filename' w1 of
                  (Inl err, w2) \<Rightarrow> (Some err, w2)
                | (Inr f, w2) \<Rightarrow> File_Write os f text w2)))"

text \<open>
  \<open>Package.Store\<close>. The loop over \<open>codes\<close> returns at the first error of
  \<open>writeFile\<close>; \<open>so\<close> is the order in which \<open>codes\<close> is visited.
\<close>

fun Package_Store_loop ::
  "('w, 'h) env \<Rightarrow> (string \<times> string) list \<Rightarrow> 'w \<Rightarrow> error option \<times> 'w" where
  "Package_Store_loop os [] w = (None, w)"
| "Package_Store_loop os ((k, v) # rest) w =
     (case writeFile os k v w of
        (Some first, w') \<Rightarrow> (Some first, w')
      | (None, w') \<Rightarrow> Package_Store_loop os rest w')"

definition Package_Store ::
  "('fset, 'ast) printer \<Rightarrow> ('w, 'h) env \<Rightarrow> string list \<Rightarrow> string list
     \<Rightarrow> ('fset, 'ast) Package \<Rightarrow> 'w \<Rightarrow> error option \<times> 'w" where
  "Package_Store fmt os fo so p w =
     (case Package_Format fmt fo p of
        (codes, Some first) \<Rightarrow> (Some first, w)
      | (codes, None) \<Rightarrow> Package_Store_loop os (range_map so codes) w)"

text \<open>
  \<open>Module.Store\<close>. The outer loop visits the packages of \<open>codes\<close>, the inner loop
  the files of one package; an error of \<open>writeFile\<close> returns from both. \<open>so\<close> is
  the order of the outer loop, \<open>io k\<close> the order of the inner loop for package \<open>k\<close>.
\<close>

fun Module_Store_loop ::
  "('w, 'h) env \<Rightarrow> (string \<Rightarrow> string list) \<Rightarrow> (string \<times> (string \<rightharpoonup> string)) list \<Rightarrow> 'w
     \<Rightarrow> error option \<times> 'w" where
  "Module_Store_loop os io [] w = (None, w)"
| "Module_Store_loop os io ((k, v) # rest) w =
     (case Package_Store_loop os (range_map (io k) v) w of
        (Some first, w') \<Rightarrow> (Some first, w')
      | (None, w') \<Rightarrow> Module_Store_loop os io rest w')"

definition Module_Store ::
  "('fset, 'ast) printer \<Rightarrow> ('w, 'h) env \<Rightarrow> string list \<Rightarrow> (string \<Rightarrow> string list)
     \<Rightarrow> string list \<Rightarrow> (string \<Rightarrow> string list)
     \<Rightarrow> ('fset, 'ast) Module \<Rightarrow> 'w \<Rightarrow> error option \<times> 'w" where
  "Module_Store fmt os po fo so io m w =
     (case Module_Format fmt po fo m of
        (codes, Some first) \<Rightarrow> (Some first, w)
      | (codes, None) \<Rightarrow> Module_Store_loop os io (range_map so codes) w)"

text \<open>
  The sequence of files that \<open>Module.Store\<close> visits: the files of the first package
  visited, then those of the second, and so on.
\<close>

definition Module_visits ::
  "string list \<Rightarrow> (string \<Rightarrow> string list) \<Rightarrow> (string \<rightharpoonup> (string \<rightharpoonup> string))
     \<Rightarrow> (string \<times> string) list" where
  "Module_visits so io codes =
     concat (map (\<lambda>(k, v). range_map (io k) v) (range_map so codes))"

subsection \<open>An example storage\<close>

text \<open>
  A small instance of the parameters, for evaluating the operations: a storage with
  directories, files and a set of sealed directories that cannot be created or written
  to; paths are absolute already; \<open>os.Create\<close> truncates, \<open>Write\<close> stores the text and
  an open file is its path. The example printer fails on the node \<open>bad\<close>, after it
  wrote two bytes.
\<close>

record fs =
  fs_dirs :: "string set"
  fs_files :: "string \<rightharpoonup> string"
  fs_sealed :: "string set"

definition dirname :: "string \<Rightarrow> string" where
  "dirname path = rev (drop 1 (dropWhile (\<lambda>c. c \<noteq> CHR ''/'') (rev path)))"

definition demo_env :: "(fs, string) env" where
  "demo_env = \<lparr>
     filepath_Abs = (\<lambda>w path. (path, None)),
     filepath_Dir = dirname,
     os_MkdirAll = (\<lambda>dir w.
       if dir \<in> fs_sealed w then (Some (Error ''permission denied''), w)
       else (None, w\<lparr>fs_dirs := insert dir (fs_dirs w)\<rparr>)),
     os_Create = (\<lambda>path w. (Inr path, w\<lparr>fs_files := (fs_files w)(path \<mapsto> [])\<rparr>)),
     File_Write = (\<lambda>f text w. (None, w\<lparr>fs_files := (fs_files w)(f \<mapsto> text)\<rparr>))\<rparr>"

definition demo_fmt :: "(unit, string) printer" where
  "demo_fmt fset node =
     (if node = ''bad'' then (''pa'', Some (Error ''expected declaration''))
      else (node, None))"

definition demo_file :: "string \<Rightarrow> string \<Rightarrow> (unit, string) File" where
  "demo_file name src = \<lparr>File_ast = src, File_FileSet = (), File_Filename = name\<rparr>"

text \<open>
  A package of three files, visited in the order \<open>x\<close>, \<open>y\<close>, \<open>z\<close>; a module with
  the same files in two packages; a package and a module with a file that does not format.
\<close>

definition demo_pkg :: "(unit, string) Package" where
  "demo_pkg = \<lparr>Package_Dir = ''/'', Package_Name = ''p'',
     Package_Files = [''/a/x.go'' \<mapsto> demo_file ''/a/x.go'' ''package p // x'',
                      ''/b/y.go'' \<mapsto> demo_file ''/b/y.go'' ''package p // y'',
                      ''/c/z.go'' \<mapsto> demo_file ''/c/z.go'' ''package p // z'']\<rparr>"

definition demo_order :: "string list" where
  "demo_order = [''/a/x.go'', ''/b/y.go'', ''/c/z.go'']"

definition demo_codes :: "string \<rightharpoonup> string" where
  "demo_codes = [''/a/x.go'' \<mapsto> ''package p // x'', ''/b/y.go'' \<mapsto> ''package p // y'',
                 ''/c/z.go'' \<mapsto> ''package p // z'']"

definition demo_pkg_a :: "(unit, string) Package" where
  "demo_pkg_a = \<lparr>Package_Dir = ''/a'', Package_Name = ''a'',
     Package_Files = [''/a/x.go'' \<mapsto> demo_file ''/a/x.go'' ''package p // x'']\<rparr>"

definition demo_pkg_b :: "(unit, string) Package" where
  "demo_pkg_b = \<lparr>Package_Dir = ''/b'', Package_Name = ''b'',
     Package_Files = [''/b/y.go'' \<mapsto> demo_file ''/b/y.go'' ''package p // y'',
                      ''/c/z.go'' \<mapsto> demo_file ''/c/z.go'' ''package p // z'']\<rparr>"

definition demo_mod :: "(unit, string) Module" where
  "demo_mod = \<lparr>Module_Dir = ''/'',
     Module_Packages = [''a'' \<mapsto> demo_pkg_a, ''b'' \<mapsto> demo_pkg_b]\<rparr>"

definition demo_mcodes :: "string \<rightharpoonup> (string \<rightharpoonup> string)" where
  "demo_mcodes =
     [''a'' \<mapsto> [''/a/x.go'' \<mapsto> ''package p // x''],
      ''b'' \<mapsto> [''/b/y.go'' \<mapsto> ''package p // y'', ''/c/z.go'' \<mapsto> ''package p // z'']]"

definition demo_bad_pkg :: "(unit, string) Package" where
  "demo_bad_pkg = \<lparr>Package_Dir = ''/'', Package_Name = ''q'',
     Package_Files = [''/a/x.go'' \<mapsto> demo_file ''/a/x.go'' ''package q // x'',
                      ''/b/y.go'' \<mapsto> demo_file ''/b/y.go'' ''bad'',
                      ''/c/z.go'' \<mapsto> demo_file ''/c/z.go'' ''package q // z'']\<rparr>"

definition demo_bad_mod :: "(unit, string) Module" where
  "demo_bad_mod = \<lparr>Module_Dir = ''/'',
     Module_Packages = [''a'' \<mapsto> demo_pkg_a, ''q'' \<mapsto> demo_bad_pkg]\<rparr>"

text \<open>
  The storage at the start with the directory \<open>/b\<close> sealed, and after the file
  \<open>x\<close> has been written to it; the storage at the start with no directory sealed,
  and after all three files have been written to it.
\<close>

definition fs0 :: fs where
  "fs0 = \<lparr>fs_dirs = {''/''}, fs_files = Map.empty, fs_sealed = {''/b''}\<rparr>"

definition fs1 :: fs where
  "fs1 = \<lparr>fs_dirs = {''/a'', ''/''}, fs_files = [''/a/x.go'' \<mapsto> ''package p // x''],
     fs_sealed = {''/b''}\<rparr>"

definition fs0_open :: fs where
  "fs0_open = \<lparr>fs_dirs = {''/''}, fs_files = Map.empty, fs_sealed = {}\<rparr>"

definition fs3_open :: fs where
  "fs3_open = \<lparr>fs_dirs = {''/c'', ''/b'', ''/a'', ''/''},
     fs_files = demo_codes, fs_sealed = {}\<rparr>"

section \<open>Results\<close>

subsection \<open>Loops\<close>

lemma range_map_member:
  "(k, v) \<in> set (range_map order m) \<longleftrightarrow> k \<in> set order \<and> m k = Some v"
  by (auto simp: range_map_def map_filter_def image_iff)

lemma Package_Store_loop_append:
  "Package_Store_loop os (xs @ ys) w =
     (case Package_Store_loop os xs w of
        (Some e, w') \<Rightarrow> (Some e, w')
      | (None, w') \<Rightarrow> Package_Store_loop os ys w')"
  by (induction xs arbitrary: w) (auto split: prod.splits option.splits)

lemma Package_Store_loop_first_failure:
  assumes "Package_Store_loop os pre w = (None, w1)"
    and "writeFile os k v w1 = (Some e, w2)"
  shows "Package_Store_loop os (pre @ (k, v) # post) w = (Some e, w2)"
  using assms by (simp add: Package_Store_loop_append)

lemma Package_Store_loop_success:
  assumes "Package_Store_loop os (pre @ (k, v) # post) w = (None, w')"
  shows "\<exists>wa wb. Package_Store_loop os pre w = (None, wa) \<and>
           writeFile os k v wa = (None, wb) \<and> Package_Store_loop os post wb = (None, w')"
  using assms
  by (auto simp: Package_Store_loop_append split: prod.splits option.splits)

lemma Module_Store_loop_flat:
  "Module_Store_loop os io pkgs w =
     Package_Store_loop os (concat (map (\<lambda>(k, v). range_map (io k) v) pkgs)) w"
  by (induction pkgs arbitrary: w)
    (auto simp: Package_Store_loop_append split: prod.splits option.splits)

lemma writeFile_success:
  assumes "writeFile os k v w = (None, w')"
  shows "\<exists>abs wa f wb. filepath_Abs os w k = (abs, None) \<and>
           os_MkdirAll os (filepath_Dir os abs) w = (None, wa) \<and>
           os_Create os abs wa = (Inr f, wb) \<and> File_Write os f v wb = (None, w')"
  using assms
  by (auto simp: writeFile_def split: prod.splits option.splits sum.splits)

lemma Package_Format_loop_fails:
  assumes "(k, f) \<in> set fs" and "snd (File_Format fmt f) \<noteq> None"
  shows "snd (Package_Format_loop fmt fs codes) \<noteq> None"
  using assms
proof (induction fs arbitrary: codes)
  case Nil
  then show ?case by simp
next
  case (Cons x fs)
  obtain k' f' where x: "x = (k', f')" by (cases x)
  show ?case
  proof (cases "snd (File_Format fmt f')")
    case None
    with Cons x show ?thesis by (auto split: prod.splits option.splits)
  next
    case (Some e)
    with x show ?thesis by (auto split: prod.splits option.splits)
  qed
qed

lemma Package_Format_loop_error_origin:
  assumes "snd (Package_Format_loop fmt fs codes) = Some e"
  shows "\<exists>k f. (k, f) \<in> set fs \<and> snd (File_Format fmt f) = Some e"
  using assms
proof (induction fs arbitrary: codes)
  case Nil
  then show ?case by simp
next
  case (Cons x fs)
  obtain k' f' where x: "x = (k', f')" by (cases x)
  show ?case
  proof (cases "snd (File_Format fmt f')")
    case None
    with Cons.prems x
    have "snd (Package_Format_loop fmt fs (codes(k' \<mapsto> fst (File_Format fmt f')))) = Some e"
      by (auto split: prod.splits option.splits)
    from Cons.IH [OF this] show ?thesis by auto
  next
    case (Some e')
    with Cons.prems x have "e' = e" by (auto split: prod.splits option.splits)
    with Some x show ?thesis by auto
  qed
qed

lemma Module_Format_loop_fails:
  assumes "(pk, p) \<in> set ps" and "snd (Package_Format fmt (fo pk) p) \<noteq> None"
  shows "snd (Module_Format_loop fmt fo ps codes) \<noteq> None"
  using assms
proof (induction ps arbitrary: codes)
  case Nil
  then show ?case by simp
next
  case (Cons x ps)
  obtain k' p' where x: "x = (k', p')" by (cases x)
  show ?case
  proof (cases "snd (Package_Format fmt (fo k') p')")
    case None
    with Cons x show ?thesis by (auto split: prod.splits option.splits)
  next
    case (Some e)
    with x show ?thesis by (auto split: prod.splits option.splits)
  qed
qed

lemma Module_Format_loop_error_origin:
  assumes "snd (Module_Format_loop fmt fo ps codes) = Some e"
  shows "\<exists>pk p. (pk, p) \<in> set ps \<and> snd (Package_Format fmt (fo pk) p) = Some e"
  using assms
proof (induction ps arbitrary: codes)
  case Nil
  then show ?case by simp
next
  case (Cons x ps)
  obtain k' p' where x: "x = (k', p')" by (cases x)
  show ?case
  proof (cases "snd (Package_Format fmt (fo k') p')")
    case None
    with Cons.prems x
    have "snd (Module_Format_loop fmt fo ps
             (codes(k' \<mapsto> fst (Package_Format fmt (fo k') p')))) = Some e"
      by (auto split: prod.splits option.splits)
    from Cons.IH [OF this] show ?thesis by auto
  next
    case (Some e')
    with Cons.prems x have "e' = e" by (auto split: prod.splits option.splits)
    with Some x show ?thesis by auto
  qed
qed

lemmas demo_defs = Package_Format_def Module_Format_def range_map_def File_Format_def
  File_FormatNode_def demo_fmt_def demo_file_def demo_pkg_def demo_pkg_a_def demo_pkg_b_def
  demo_bad_pkg_def demo_mod_def demo_bad_mod_def demo_order_def demo_codes_def demo_mcodes_def
  demo_env_def writeFile_def dirname_def Module_visits_def
  fs0_def fs1_def fs0_open_def fs3_open_def

subsection \<open>The claims\<close>


text \<open>
  C1. Each of the 17 builtin primitive identifiers is classified as its own Kind with
  \<open>found = true\<close>; every other string is classified \<open>(Invalid, false)\<close>.
\<close>

theorem getBasicKind_table:
  "getBasicKind ''bool'' = (Bool, True) \<and>
   getBasicKind ''int'' = (IntK, True) \<and>
   getBasicKind ''int8'' = (Int8, True) \<and>
   getBasicKind ''int16'' = (Int16, True) \<and>
   getBasicKind ''int32'' = (Int32, True) \<and>
   getBasicKind ''int64'' = (Int64, True) \<and>
   getBasicKind ''uint'' = (Uint, True) \<and>
   getBasicKind ''uint8'' = (Uint8, True) \<and>
   getBasicKind ''uint16'' = (Uint16, True) \<and>
   getBasicKind ''uint32'' = (Uint32, True) \<and>
   getBasicKind ''uint64'' = (Uint64, True) \<and>
   getBasicKind ''uintptr'' = (Uintptr, True) \<and>
   getBasicKind ''float32'' = (Float32, True) \<and>
   getBasicKind ''float64'' = (Float64, True) \<and>
   getBasicKind ''complex64'' = (Complex64, True) \<and>
   getBasicKind ''complex128'' = (Complex128, True) \<and>
   getBasicKind ''string'' = (String, True) \<and>
   (\<forall>s. s \<notin> {''bool'', ''int'', ''int8'', ''int16'', ''int32'', ''int64'',
              ''uint'', ''uint8'', ''uint16'', ''uint32'', ''uint64'', ''uintptr'',
              ''float32'', ''float64'', ''complex64'', ''complex128'', ''string''}
        \<longrightarrow> getBasicKind s = (Invalid, False))"
  by (simp add: getBasicKind_def)

theorem getBasicKind_table_witness:
  "getBasicKind ''error'' = (Invalid, False) \<and> getBasicKind ''Int'' = (Invalid, False)"
  using getBasicKind_table by simp

text \<open>
  C2. \<open>Implements\<close> is specified to report, for an interface \<open>U\<close>, whether the
  method set of \<open>T\<close> covers that of \<open>U\<close>. The code returns no answer on any input: it
  panics with the wrong-kind message on a Func node and with the message
  \<open>aster: (TODO) Coming soon!\<close> on every other node, whatever \<open>U\<close> is; so it does on
  the struct \<open>T\<close> and the interface \<open>U\<close>.
\<close>

theorem Implements_coming_soon:
  "Implements s u =
     Inl (Panic (if kind s = Func then ''aster: Kind cant not be aster.Func!''
                 else ''aster: (TODO) Coming soon!'')) \<and>
   Implements structT (Some ifaceU) = Inl (Panic ''aster: (TODO) Coming soon!'')"
  by (simp add: Implements_def structT_def)

text \<open>
  C3. \<open>addMethod\<close> is specified to attach a method once and reject the second attach
  of the same name. The code attaches nothing: already the first call on a type node
  panics with \<open>aster: (TODO) Coming soon!\<close> (and with the wrong-kind message on a Func
  node), so it does when \<open>Foo\<close> is attached to the struct \<open>T\<close>.
\<close>

theorem addMethod_coming_soon:
  "addMethod s m =
     Inl (Panic (if kind s = Func then ''aster: Kind cant not be aster.Func!''
                 else ''aster: (TODO) Coming soon!'')) \<and>
   addMethod structT (Some funcFoo) = Inl (Panic ''aster: (TODO) Coming soon!'')"
  by (simp add: addMethod_def structT_def)

text \<open>
  C4. \<open>NumField\<close>, \<open>Field\<close> and \<open>FieldByName\<close> are specified to answer from the
  declared field list of a struct. The code answers nothing: on a Struct node each of
  them panics with \<open>aster: (TODO) Coming soon!\<close>, on any other node with the
  must-be-Struct message.
\<close>

theorem struct_fields_coming_soon:
  "NumField s =
     Inl (Panic (if kind s \<noteq> Struct then ''aster: Kind must be aster.Struct!''
                 else ''aster: (TODO) Coming soon!'')) \<and>
   (Field s i :: panic + 'sf option) =
     Inl (Panic (if kind s \<noteq> Struct then ''aster: Kind must be aster.Struct!''
                 else ''aster: (TODO) Coming soon!'')) \<and>
   (FieldByName s name :: panic + ('sf option \<times> bool)) =
     Inl (Panic (if kind s \<noteq> Struct then ''aster: Kind must be aster.Struct!''
                 else ''aster: (TODO) Coming soon!'')) \<and>
   NumField structT = Inl (Panic ''aster: (TODO) Coming soon!'') \<and>
   (Field structT 0 :: panic + 'sf option) = Inl (Panic ''aster: (TODO) Coming soon!'') \<and>
   (Field structT 1 :: panic + 'sf option) = Inl (Panic ''aster: (TODO) Coming soon!'') \<and>
   (FieldByName structT ''A'' :: panic + ('sf option \<times> bool)) =
     Inl (Panic ''aster: (TODO) Coming soon!'') \<and>
   (FieldByName structT ''Z'' :: panic + ('sf option \<times> bool)) =
     Inl (Panic ''aster: (TODO) Coming soon!'')"
  by (simp add: NumField_def Field_def FieldByName_def structT_def)

text \<open>
  C5. \<open>Param\<close> and \<open>Result\<close> are specified to return a not-found result for an
  index out of range. The code never looks at the index: on a Func node both panic
  with \<open>aster: (TODO) Coming soon!\<close> at every index, on any other node with the
  must-be-Func message.
\<close>

theorem Param_Result_coming_soon:
  "Param s i =
     Inl (Panic (if kind s \<noteq> Func then ''aster: Kind must be aster.Func!''
                 else ''aster: (TODO) Coming soon!'')) \<and>
   Result s i =
     Inl (Panic (if kind s \<noteq> Func then ''aster: Kind must be aster.Func!''
                 else ''aster: (TODO) Coming soon!'')) \<and>
   Param funcFoo 7 = Inl (Panic ''aster: (TODO) Coming soon!'') \<and>
   Param funcFoo (- 1) = Inl (Panic ''aster: (TODO) Coming soon!'') \<and>
   Result funcFoo 7 = Inl (Panic ''aster: (TODO) Coming soon!'') \<and>
   Result funcFoo (- 1) = Inl (Panic ''aster: (TODO) Coming soon!'')"
  by (simp add: Param_def Result_def funcFoo_def)

text \<open>
  C6. A Func-only operation on a node whose kind is not Func panics with the
  must-be-Func message; a type-only operation on a Func node panics with the
  cannot-be-Func message, and the three struct operations on a Func node panic with the
  must-be-Struct message. In each case the result is the panic, never a returned value.
\<close>

theorem wrong_kind_panics:
  "(kind s \<noteq> Func \<longrightarrow>
      NumParam s = Inl (Panic ''aster: Kind must be aster.Func!'') \<and>
      NumResult s = Inl (Panic ''aster: Kind must be aster.Func!'') \<and>
      Param s i = Inl (Panic ''aster: Kind must be aster.Func!'') \<and>
      Result s i = Inl (Panic ''aster: Kind must be aster.Func!'') \<and>
      IsVariadic s = Inl (Panic ''aster: Kind must be aster.Func!'') \<and>
      Recv s = Inl (Panic ''aster: Kind must be aster.Func!'')) \<and>
   (kind s = Func \<longrightarrow>
      IsAssign s = Inl (Panic ''aster: Kind cant not be aster.Func!'') \<and>
      NumMethod s = Inl (Panic ''aster: Kind cant not be aster.Func!'') \<and>
      Method s i = Inl (Panic ''aster: Kind cant not be aster.Func!'') \<and>
      MethodByName s name = Inl (Panic ''aster: Kind cant not be aster.Func!'') \<and>
      Implements s u = Inl (Panic ''aster: Kind cant not be aster.Func!'') \<and>
      addMethod s m = Inl (Panic ''aster: Kind cant not be aster.Func!'') \<and>
      NumField s = Inl (Panic ''aster: Kind must be aster.Struct!'') \<and>
      (Field s i :: panic + 'sf option) = Inl (Panic ''aster: Kind must be aster.Struct!'') \<and>
      (FieldByName s name :: panic + ('sf option \<times> bool)) =
        Inl (Panic ''aster: Kind must be aster.Struct!''))"
  by (simp add: NumParam_def NumResult_def Param_def Result_def IsVariadic_def Recv_def
      IsAssign_def NumMethod_def Method_def MethodByName_def Implements_def addMethod_def
      NumField_def Field_def FieldByName_def)

theorem wrong_kind_panics_witness:
  "kind structT \<noteq> Func \<and>
   NumParam structT = Inl (Panic ''aster: Kind must be aster.Func!'') \<and>
   NumResult structT = Inl (Panic ''aster: Kind must be aster.Func!'') \<and>
   Param structT 0 = Inl (Panic ''aster: Kind must be aster.Func!'') \<and>
   Result structT 0 = Inl (Panic ''aster: Kind must be aster.Func!'') \<and>
   IsVariadic structT = Inl (Panic ''aster: Kind must be aster.Func!'') \<and>
   Recv structT = Inl (Panic ''aster: Kind must be aster.Func!'') \<and>
   kind funcFoo = Func \<and>
   IsAssign funcFoo = Inl (Panic ''aster: Kind cant not be aster.Func!'') \<and>
   NumMethod funcFoo = Inl (Panic ''aster: Kind cant not be aster.Func!'') \<and>
   Method funcFoo 0 = Inl (Panic ''aster: Kind cant not be aster.Func!'') \<and>
   MethodByName funcFoo ''Bar'' = Inl (Panic ''aster: Kind cant not be aster.Func!'') \<and>
   Implements funcFoo (Some ifaceU) = Inl (Panic ''aster: Kind cant not be aster.Func!'') \<and>
   addMethod funcFoo (Some funcFoo) = Inl (Panic ''aster: Kind cant not be aster.Func!'') \<and>
   NumField funcFoo = Inl (Panic ''aster: Kind must be aster.Struct!'') \<and>
   (Field funcFoo 0 :: panic + (string \<times> string) option) =
     Inl (Panic ''aster: Kind must be aster.Struct!'') \<and>
   (FieldByName funcFoo ''Bar'' :: panic + ((string \<times> string) option \<times> bool)) =
     Inl (Panic ''aster: Kind must be aster.Struct!'')"
proof -
  have k1: "kind structT \<noteq> Func" by (simp add: structT_def)
  have k2: "kind funcFoo = Func" by (simp add: funcFoo_def)
  show ?thesis
    using k1 k2
      wrong_kind_panics [of structT 0 "''Bar''" "Some ifaceU" "Some funcFoo",
        where ?'sf = "string \<times> string"]
      wrong_kind_panics [of funcFoo 0 "''Bar''" "Some ifaceU" "Some funcFoo",
        where ?'sf = "string \<times> string"]
    by simp
qed

text \<open>
  C7. \<open>IsVariadic\<close> and \<open>NumParam\<close> are specified, and documented at
  \<open>IsVariadic\<close>, to report the final variadic parameter and the parameter count. The
  code reports neither: on every Func node both panic with
  \<open>aster: (TODO) Coming soon!\<close>.
\<close>

theorem IsVariadic_coming_soon:
  "IsVariadic s =
     Inl (Panic (if kind s \<noteq> Func then ''aster: Kind must be aster.Func!''
                 else ''aster: (TODO) Coming soon!'')) \<and>
   NumParam s =
     Inl (Panic (if kind s \<noteq> Func then ''aster: Kind must be aster.Func!''
                 else ''aster: (TODO) Coming soon!'')) \<and>
   IsVariadic funcFoo = Inl (Panic ''aster: (TODO) Coming soon!'') \<and>
   NumParam funcFoo = Inl (Panic ''aster: (TODO) Coming soon!'')"
  by (simp add: IsVariadic_def NumParam_def funcFoo_def)

text \<open>
  C8. \<open>writeFile\<close> returns nil only after the parent directory of the absolute path
  was made, the file created and the text written, in this order. When the batch
  succeeds, every entry visited was written by a successful \<open>writeFile\<close>, one after the
  other. When the entries \<open>pre\<close> are written and the write of the next entry \<open>(k, v)\<close>
  fails with \<open>e\<close>, \<open>Package.Store\<close> and \<open>Module.Store\<close> return \<open>e\<close> and leave the
  storage as the failed \<open>writeFile\<close> left it: what \<open>pre\<close> wrote is not undone, and no
  entry of \<open>post\<close> is written.
\<close>

theorem Store_stops_at_first_write_failure:
  "(writeFile os k v w = (None, w') \<longrightarrow>
      (\<exists>abs wa f wb. filepath_Abs os w k = (abs, None) \<and>
         os_MkdirAll os (filepath_Dir os abs) w = (None, wa) \<and>
         os_Create os abs wa = (Inr f, wb) \<and> File_Write os f v wb = (None, w'))) \<and>
   (Package_Format fmt fo p = (codes, None) \<and>
    range_map so codes = pre @ (k, v) # post \<and>
    Package_Store fmt os fo so p w = (None, w') \<longrightarrow>
      (\<exists>wa wb. Package_Store_loop os pre w = (None, wa) \<and>
         writeFile os k v wa = (None, wb) \<and> Package_Store_loop os post wb = (None, w'))) \<and>
   (Module_Format fmt po mfo m = (mcodes, None) \<and>
    Module_visits mso io mcodes = pre @ (k, v) # post \<and>
    Module_Store fmt os po mfo mso io m w = (None, w') \<longrightarrow>
      (\<exists>wa wb. Package_Store_loop os pre w = (None, wa) \<and>
         writeFile os k v wa = (None, wb) \<and> Package_Store_loop os post wb = (None, w'))) \<and>
   (Package_Format fmt fo p = (codes, None) \<and>
    range_map so codes = pre @ (k, v) # post \<and>
    Package_Store_loop os pre w = (None, w1) \<and>
    writeFile os k v w1 = (Some e, w2) \<longrightarrow>
      Package_Store fmt os fo so p w = (Some e, w2)) \<and>
   (Module_Format fmt po mfo m = (mcodes, None) \<and>
    Module_visits mso io mcodes = pre @ (k, v) # post \<and>
    Package_Store_loop os pre w = (None, w1) \<and>
    writeFile os k v w1 = (Some e, w2) \<longrightarrow>
      Module_Store fmt os po mfo mso io m w = (Some e, w2))"
proof (intro conjI impI)
  assume "writeFile os k v w = (None, w')"
  then show "\<exists>abs wa f wb. filepath_Abs os w k = (abs, None) \<and>
         os_MkdirAll os (filepath_Dir os abs) w = (None, wa) \<and>
         os_Create os abs wa = (Inr f, wb) \<and> File_Write os f v wb = (None, w')"
    by (rule writeFile_success)
next
  assume a: "Package_Format fmt fo p = (codes, None) \<and>
    range_map so codes = pre @ (k, v) # post \<and>
    Package_Store fmt os fo so p w = (None, w')"
  then have "Package_Store_loop os (pre @ (k, v) # post) w = (None, w')"
    by (auto simp: Package_Store_def)
  then show "\<exists>wa wb. Package_Store_loop os pre w = (None, wa) \<and>
         writeFile os k v wa = (None, wb) \<and> Package_Store_loop os post wb = (None, w')"
    by (rule Package_Store_loop_success)
next
  assume a: "Module_Format fmt po mfo m = (mcodes, None) \<and>
    Module_visits mso io mcodes = pre @ (k, v) # post \<and>
    Module_Store fmt os po mfo mso io m w = (None, w')"
  then have "Module_Store_loop os io (range_map mso mcodes) w = (None, w')"
    by (auto simp: Module_Store_def)
  with a have "Package_Store_loop os (pre @ (k, v) # post) w = (None, w')"
    by (auto simp: Module_Store_loop_flat Module_visits_def)
  then show "\<exists>wa wb. Package_Store_loop os pre w = (None, wa) \<and>
         writeFile os k v wa = (None, wb) \<and> Package_Store_loop os post wb = (None, w')"
    by (rule Package_Store_loop_success)
next
  assume a: "Package_Format fmt fo p = (codes, None) \<and>
    range_map so codes = pre @ (k, v) # post \<and>
    Package_Store_loop os pre w = (None, w1) \<and>
    writeFile os k v w1 = (Some e, w2)"
  then have "Package_Store_loop os (range_map so codes) w = (Some e, w2)"
    by (auto simp: Package_Store_loop_first_failure)
  with a show "Package_Store fmt os fo so p w = (Some e, w2)"
    by (auto simp: Package_Store_def)
next
  assume a: "Module_Format fmt po mfo m = (mcodes, None) \<and>
    Module_visits mso io mcodes = pre @ (k, v) # post \<and>
    Package_Store_loop os pre w = (None, w1) \<and>
    writeFile os k v w1 = (Some e, w2)"
  then have "Package_Store_loop os (Module_visits mso io mcodes) w = (Some e, w2)"
    by (auto simp: Package_Store_loop_first_failure)
  then have "Module_Store_loop os io (range_map mso mcodes) w = (Some e, w2)"
    by (simp add: Module_Store_loop_flat Module_visits_def)
  with a show "Module_Store fmt os po mfo mso io m w = (Some e, w2)"
    by (auto simp: Module_Store_def)
qed

theorem Store_stops_at_first_write_failure_witness:
  "writeFile demo_env ''/a/x.go'' ''package p // x'' fs0 = (None, fs1) \<and>
   filepath_Abs demo_env fs0 ''/a/x.go'' = (''/a/x.go'', None) \<and>
   filepath_Dir demo_env ''/a/x.go'' = ''/a'' \<and>
   (\<exists>wa f wb. os_MkdirAll demo_env ''/a'' fs0 = (None, wa) \<and>
      os_Create demo_env ''/a/x.go'' wa = (Inr f, wb) \<and>
      File_Write demo_env f ''package p // x'' wb = (None, fs1)) \<and>
   Package_Format demo_fmt demo_order demo_pkg = (demo_codes, None) \<and>
   range_map demo_order demo_codes =
     [(''/a/x.go'', ''package p // x'')] @ (''/b/y.go'', ''package p // y'') #
     [(''/c/z.go'', ''package p // z'')] \<and>
   Package_Store demo_fmt demo_env demo_order demo_order demo_pkg fs0_open = (None, fs3_open) \<and>
   (\<exists>wa wb. Package_Store_loop demo_env [(''/a/x.go'', ''package p // x'')] fs0_open = (None, wa) \<and>
      writeFile demo_env ''/b/y.go'' ''package p // y'' wa = (None, wb) \<and>
      Package_Store_loop demo_env [(''/c/z.go'', ''package p // z'')] wb = (None, fs3_open)) \<and>
   Module_Format demo_fmt [''a'', ''b''] (\<lambda>_. demo_order) demo_mod = (demo_mcodes, None) \<and>
   Module_visits [''a'', ''b''] (\<lambda>_. demo_order) demo_mcodes =
     [(''/a/x.go'', ''package p // x'')] @ (''/b/y.go'', ''package p // y'') #
     [(''/c/z.go'', ''package p // z'')] \<and>
   Module_Store demo_fmt demo_env [''a'', ''b''] (\<lambda>_. demo_order) [''a'', ''b'']
       (\<lambda>_. demo_order) demo_mod fs0_open = (None, fs3_open) \<and>
   Package_Store_loop demo_env [(''/a/x.go'', ''package p // x'')] fs0 = (None, fs1) \<and>
   writeFile demo_env ''/b/y.go'' ''package p // y'' fs1 =
     (Some (Error ''permission denied''), fs1) \<and>
   Package_Store demo_fmt demo_env demo_order demo_order demo_pkg fs0 =
     (Some (Error ''permission denied''), fs1) \<and>
   Module_Store demo_fmt demo_env [''a'', ''b''] (\<lambda>_. demo_order) [''a'', ''b'']
       (\<lambda>_. demo_order) demo_mod fs0 = (Some (Error ''permission denied''), fs1) \<and>
   fs_files fs1 ''/a/x.go'' = Some ''package p // x'' \<and>
   fs_files fs1 ''/b/y.go'' = None \<and>
   fs_files fs1 ''/c/z.go'' = None"
proof -
  note inst = Store_stops_at_first_write_failure
    [where os = demo_env and fmt = demo_fmt and fo = demo_order and so = demo_order
       and p = demo_pkg and codes = demo_codes
       and po = "[''a'', ''b'']" and mfo = "\<lambda>_. demo_order"
       and mso = "[''a'', ''b'']" and io = "\<lambda>_. demo_order"
       and m = demo_mod and mcodes = demo_mcodes
       and pre = "[(''/a/x.go'', ''package p // x'')]"
       and post = "[(''/c/z.go'', ''package p // z'')]"]
  have wx: "writeFile demo_env ''/a/x.go'' ''package p // x'' fs0 = (None, fs1)"
    by (simp add: demo_defs)
  have ab: "filepath_Abs demo_env fs0 ''/a/x.go'' = (''/a/x.go'', None)"
    by (simp add: demo_defs)
  have di: "filepath_Dir demo_env ''/a/x.go'' = ''/a''"
    by (simp add: demo_defs)
  have ex1: "\<exists>wa f wb. os_MkdirAll demo_env ''/a'' fs0 = (None, wa) \<and>
      os_Create demo_env ''/a/x.go'' wa = (Inr f, wb) \<and>
      File_Write demo_env f ''package p // x'' wb = (None, fs1)"
    using wx ab di
      Store_stops_at_first_write_failure
        [where os = demo_env and k = "''/a/x.go''" and v = "''package p // x''"
           and w = fs0 and w' = fs1, THEN conjunct1]
    by auto
  have pf: "Package_Format demo_fmt demo_order demo_pkg = (demo_codes, None)"
    by (simp add: demo_defs)
  have rm: "range_map demo_order demo_codes =
     [(''/a/x.go'', ''package p // x'')] @ (''/b/y.go'', ''package p // y'') #
     [(''/c/z.go'', ''package p // z'')]"
    by (simp add: demo_defs)
  have pso: "Package_Store demo_fmt demo_env demo_order demo_order demo_pkg fs0_open =
      (None, fs3_open)"
    by (simp add: Package_Store_def demo_defs)
  have ex2: "\<exists>wa wb.
      Package_Store_loop demo_env [(''/a/x.go'', ''package p // x'')] fs0_open = (None, wa) \<and>
      writeFile demo_env ''/b/y.go'' ''package p // y'' wa = (None, wb) \<and>
      Package_Store_loop demo_env [(''/c/z.go'', ''package p // z'')] wb = (None, fs3_open)"
    using pf rm pso
      inst [where k = "''/b/y.go''" and v = "''package p // y''" and w = fs0_open
             and w' = fs3_open, THEN conjunct2, THEN conjunct1]
    by blast
  have mf: "Module_Format demo_fmt [''a'', ''b''] (\<lambda>_. demo_order) demo_mod =
      (demo_mcodes, None)"
    by (simp add: demo_defs)
  have mv: "Module_visits [''a'', ''b''] (\<lambda>_. demo_order) demo_mcodes =
     [(''/a/x.go'', ''package p // x'')] @ (''/b/y.go'', ''package p // y'') #
     [(''/c/z.go'', ''package p // z'')]"
    by (simp add: demo_defs)
  have mso: "Module_Store demo_fmt demo_env [''a'', ''b''] (\<lambda>_. demo_order) [''a'', ''b'']
       (\<lambda>_. demo_order) demo_mod fs0_open = (None, fs3_open)"
    by (simp add: Module_Store_def demo_defs)
  have lp: "Package_Store_loop demo_env [(''/a/x.go'', ''package p // x'')] fs0 = (None, fs1)"
    by (simp add: wx)
  have wy: "writeFile demo_env ''/b/y.go'' ''package p // y'' fs1 =
      (Some (Error ''permission denied''), fs1)"
    by (simp add: demo_defs)
  have ps: "Package_Store demo_fmt demo_env demo_order demo_order demo_pkg fs0 =
      (Some (Error ''permission denied''), fs1)"
    using pf rm lp wy
      inst [where k = "''/b/y.go''" and v = "''package p // y''" and w = fs0
             and ?w1.0 = fs1 and ?w2.0 = fs1 and e = "Error ''permission denied''",
             THEN conjunct2, THEN conjunct2, THEN conjunct2, THEN conjunct1]
    by blast
  have ms: "Module_Store demo_fmt demo_env [''a'', ''b''] (\<lambda>_. demo_order) [''a'', ''b'']
       (\<lambda>_. demo_order) demo_mod fs0 = (Some (Error ''permission denied''), fs1)"
    using mf mv lp wy
      inst [where k = "''/b/y.go''" and v = "''package p // y''" and w = fs0
             and ?w1.0 = fs1 and ?w2.0 = fs1 and e = "Error ''permission denied''",
             THEN conjunct2, THEN conjunct2, THEN conjunct2, THEN conjunct2]
    by blast
  have c1: "fs_files fs1 ''/a/x.go'' = Some ''package p // x''" by (simp add: fs1_def)
  have c2: "fs_files fs1 ''/b/y.go'' = None" by (simp add: fs1_def)
  have c3: "fs_files fs1 ''/c/z.go'' = None" by (simp add: fs1_def)
  from wx ab di ex1 pf rm pso ex2 mf mv mso lp wy ps ms c1 c2 c3 show ?thesis
    by (intro conjI)
qed


text \<open>
  C9. \<open>Package.Store\<close> and \<open>Module.Store\<close> format everything before they write:
  when \<open>Format\<close> returns an error, \<open>Store\<close> returns this error and the storage is
  the one it started from. \<open>Format\<close> returns an error as soon as one file of the
  package (of one package of the module) does not format, and the error returned is the
  formatting error of such a file. A file of the package is an entry \<open>k\<close> of
  \<open>Package_Files\<close> that the loop visits (\<open>k \<in> set fo\<close>), as a \<open>range\<close> visits
  every key.
\<close>

theorem Store_writes_nothing_on_format_error:
  "(snd (Package_Format fmt fo p) = Some e \<longrightarrow>
      Package_Store fmt os fo so p w = (Some e, w)) \<and>
   (snd (Module_Format fmt po mfo m) = Some e \<longrightarrow>
      Module_Store fmt os po mfo mso io m w = (Some e, w)) \<and>
   (k \<in> set fo \<and> Package_Files p k = Some f \<and> snd (File_Format fmt f) \<noteq> None \<longrightarrow>
      (\<exists>e' k' f'. Package_Store fmt os fo so p w = (Some e', w) \<and>
         k' \<in> set fo \<and> Package_Files p k' = Some f' \<and>
         snd (File_Format fmt f') = Some e')) \<and>
   (pk \<in> set po \<and> Module_Packages m pk = Some q \<and>
    k \<in> set (mfo pk) \<and> Package_Files q k = Some f \<and> snd (File_Format fmt f) \<noteq> None \<longrightarrow>
      (\<exists>e' pk' q' k' f'. Module_Store fmt os po mfo mso io m w = (Some e', w) \<and>
         pk' \<in> set po \<and> Module_Packages m pk' = Some q' \<and>
         k' \<in> set (mfo pk') \<and> Package_Files q' k' = Some f' \<and>
         snd (File_Format fmt f') = Some e'))"
proof -
  have pstore: "Package_Store fmt os fo so p w = (Some e, w)"
    if "snd (Package_Format fmt fo p) = Some e" for e p fo
    using that by (auto simp: Package_Store_def split: prod.splits option.splits)
  have mstore: "Module_Store fmt os po mfo mso io m w = (Some e, w)"
    if "snd (Module_Format fmt po mfo m) = Some e" for e
    using that by (auto simp: Module_Store_def split: prod.splits option.splits)
  have pfail: "\<exists>e' k' f'. snd (Package_Format fmt fo p) = Some e' \<and>
         k' \<in> set fo \<and> Package_Files p k' = Some f' \<and> snd (File_Format fmt f') = Some e'"
    if "k \<in> set fo" "Package_Files p k = Some f" "snd (File_Format fmt f) \<noteq> None"
    for k f p fo
  proof -
    from that have mem: "(k, f) \<in> set (range_map fo (Package_Files p))"
      by (simp add: range_map_member)
    have "snd (Package_Format fmt fo p) \<noteq> None"
      unfolding Package_Format_def by (rule Package_Format_loop_fails [OF mem that(3)])
    then obtain e' where e': "snd (Package_Format fmt fo p) = Some e'" by auto
    then obtain k' f' where "(k', f') \<in> set (range_map fo (Package_Files p))"
      and "snd (File_Format fmt f') = Some e'"
      unfolding Package_Format_def by (blast dest: Package_Format_loop_error_origin)
    with e' show ?thesis by (auto simp: range_map_member)
  qed
  have mfail: "\<exists>e' pk' q' k' f'. snd (Module_Format fmt po mfo m) = Some e' \<and>
         pk' \<in> set po \<and> Module_Packages m pk' = Some q' \<and>
         k' \<in> set (mfo pk') \<and> Package_Files q' k' = Some f' \<and>
         snd (File_Format fmt f') = Some e'"
    if "pk \<in> set po" "Module_Packages m pk = Some q"
      "k \<in> set (mfo pk)" "Package_Files q k = Some f" "snd (File_Format fmt f) \<noteq> None"
  proof -
    from that pfail [of k "mfo pk" q f]
    have pne: "snd (Package_Format fmt (mfo pk) q) \<noteq> None" by auto
    from that have mem: "(pk, q) \<in> set (range_map po (Module_Packages m))"
      by (simp add: range_map_member)
    have "snd (Module_Format fmt po mfo m) \<noteq> None"
      unfolding Module_Format_def by (rule Module_Format_loop_fails [where fo = mfo, OF mem pne])
    then obtain e' where e': "snd (Module_Format fmt po mfo m) = Some e'" by auto
    then obtain pk' q' where pq: "(pk', q') \<in> set (range_map po (Module_Packages m))"
      and pe: "snd (Package_Format fmt (mfo pk') q') = Some e'"
      unfolding Module_Format_def by (blast dest: Module_Format_loop_error_origin)
    from pe obtain k' f' where "(k', f') \<in> set (range_map (mfo pk') (Package_Files q'))"
      and "snd (File_Format fmt f') = Some e'"
      unfolding Package_Format_def by (blast dest: Package_Format_loop_error_origin)
    with e' pq show ?thesis by (auto simp: range_map_member)
  qed
  show ?thesis
  proof (intro conjI impI)
    assume "snd (Package_Format fmt fo p) = Some e"
    then show "Package_Store fmt os fo so p w = (Some e, w)" by (rule pstore)
  next
    assume "snd (Module_Format fmt po mfo m) = Some e"
    then show "Module_Store fmt os po mfo mso io m w = (Some e, w)" by (rule mstore)
  next
    assume "k \<in> set fo \<and> Package_Files p k = Some f \<and> snd (File_Format fmt f) \<noteq> None"
    then obtain e' k' f' where "snd (Package_Format fmt fo p) = Some e'"
      and "k' \<in> set fo" "Package_Files p k' = Some f'" "snd (File_Format fmt f') = Some e'"
      using pfail [of k fo p f] by blast
    then show "\<exists>e' k' f'. Package_Store fmt os fo so p w = (Some e', w) \<and>
         k' \<in> set fo \<and> Package_Files p k' = Some f' \<and> snd (File_Format fmt f') = Some e'"
      using pstore by blast
  next
    assume "pk \<in> set po \<and> Module_Packages m pk = Some q \<and>
      k \<in> set (mfo pk) \<and> Package_Files q k = Some f \<and> snd (File_Format fmt f) \<noteq> None"
    then obtain e' pk' q' k' f' where "snd (Module_Format fmt po mfo m) = Some e'"
      and "pk' \<in> set po" "Module_Packages m pk' = Some q'"
        "k' \<in> set (mfo pk')" "Package_Files q' k' = Some f'"
        "snd (File_Format fmt f') = Some e'"
      using mfail by blast
    then show "\<exists>e' pk' q' k' f'. Module_Store fmt os po mfo mso io m w = (Some e', w) \<and>
         pk' \<in> set po \<and> Module_Packages m pk' = Some q' \<and>
         k' \<in> set (mfo pk') \<and> Package_Files q' k' = Some f' \<and>
         snd (File_Format fmt f') = Some e'"
      using mstore by blast
  qed
qed

theorem Store_writes_nothing_on_format_error_witness:
  "snd (Package_Format demo_fmt demo_order demo_bad_pkg) = Some (Error ''expected declaration'') \<and>
   Package_Store demo_fmt demo_env demo_order demo_order demo_bad_pkg fs0_open =
     (Some (Error ''expected declaration''), fs0_open) \<and>
   snd (Module_Format demo_fmt [''a'', ''q''] (\<lambda>_. demo_order) demo_bad_mod) =
     Some (Error ''expected declaration'') \<and>
   Module_Store demo_fmt demo_env [''a'', ''q''] (\<lambda>_. demo_order) [''a'', ''q'']
       (\<lambda>_. demo_order) demo_bad_mod fs0_open =
     (Some (Error ''expected declaration''), fs0_open) \<and>
   ''/b/y.go'' \<in> set demo_order \<and>
   Package_Files demo_bad_pkg ''/b/y.go'' = Some (demo_file ''/b/y.go'' ''bad'') \<and>
   snd (File_Format demo_fmt (demo_file ''/b/y.go'' ''bad'')) \<noteq> None \<and>
   (\<exists>e'. Package_Store demo_fmt demo_env demo_order demo_order demo_bad_pkg fs0_open =
      (Some e', fs0_open)) \<and>
   ''q'' \<in> set [''a'', ''q''] \<and>
   Module_Packages demo_bad_mod ''q'' = Some demo_bad_pkg \<and>
   (\<exists>e'. Module_Store demo_fmt demo_env [''a'', ''q''] (\<lambda>_. demo_order) [''a'', ''q'']
       (\<lambda>_. demo_order) demo_bad_mod fs0_open = (Some e', fs0_open)) \<and>
   fs_files fs0_open = Map.empty"
proof -
  note inst = Store_writes_nothing_on_format_error
    [where fmt = demo_fmt and os = demo_env and fo = demo_order and so = demo_order
       and p = demo_bad_pkg and w = fs0_open and e = "Error ''expected declaration''"
       and po = "[''a'', ''q'']" and mfo = "\<lambda>_. demo_order" and mso = "[''a'', ''q'']"
       and io = "\<lambda>_. demo_order" and m = demo_bad_mod
       and k = "''/b/y.go''" and f = "demo_file ''/b/y.go'' ''bad''"
       and pk = "''q''" and q = demo_bad_pkg]
  have pf: "snd (Package_Format demo_fmt demo_order demo_bad_pkg) =
      Some (Error ''expected declaration'')"
    by (simp add: demo_defs)
  have ps: "Package_Store demo_fmt demo_env demo_order demo_order demo_bad_pkg fs0_open =
     (Some (Error ''expected declaration''), fs0_open)"
    using pf inst [THEN conjunct1] by blast
  have mf: "snd (Module_Format demo_fmt [''a'', ''q''] (\<lambda>_. demo_order) demo_bad_mod) =
     Some (Error ''expected declaration'')"
    by (simp add: demo_defs)
  have ms: "Module_Store demo_fmt demo_env [''a'', ''q''] (\<lambda>_. demo_order) [''a'', ''q'']
       (\<lambda>_. demo_order) demo_bad_mod fs0_open =
     (Some (Error ''expected declaration''), fs0_open)"
    using mf inst [THEN conjunct2, THEN conjunct1] by blast
  have h1: "''/b/y.go'' \<in> set demo_order" by (simp add: demo_order_def)
  have h2: "Package_Files demo_bad_pkg ''/b/y.go'' = Some (demo_file ''/b/y.go'' ''bad'')"
    by (simp add: demo_bad_pkg_def)
  have h3: "snd (File_Format demo_fmt (demo_file ''/b/y.go'' ''bad'')) \<noteq> None"
    by (simp add: demo_defs)
  have ex1: "\<exists>e'. Package_Store demo_fmt demo_env demo_order demo_order demo_bad_pkg fs0_open =
      (Some e', fs0_open)"
    using h1 h2 h3 inst [THEN conjunct2, THEN conjunct2, THEN conjunct1] by blast
  have h4: "''q'' \<in> set [''a'', ''q'']" by simp
  have h5: "Module_Packages demo_bad_mod ''q'' = Some demo_bad_pkg"
    by (simp add: demo_bad_mod_def)
  have ex2: "\<exists>e'. Module_Store demo_fmt demo_env [''a'', ''q''] (\<lambda>_. demo_order) [''a'', ''q'']
       (\<lambda>_. demo_order) demo_bad_mod fs0_open = (Some e', fs0_open)"
    using h1 h2 h3 h4 h5 inst [THEN conjunct2, THEN conjunct2, THEN conjunct2] by blast
  have c: "fs_files fs0_open = Map.empty" by (simp add: fs0_open_def)
  from pf ps mf ms h1 h2 h3 ex1 h4 h5 ex2 c show ?thesis by (intro conjI)
qed

text \<open>
  C10. \<open>File.String\<close> returns a string in both cases: when \<open>Format\<close> fails with
  \<open>err\<close>, the text \<open>// Formatting error: \<close> followed by the message of \<open>err\<close>;
  when \<open>Format\<close> succeeds, the formatted text.
\<close>

theorem File_String_total:
  "(File_Format fmt f = (s, Some err) \<longrightarrow>
      File_String fmt f = ''// Formatting error: '' @ err_Error err) \<and>
   (File_Format fmt f = (s, None) \<longrightarrow> File_String fmt f = s)"
  by (simp add: File_String_def)

theorem File_String_total_witness:
  "File_Format demo_fmt (demo_file ''/b/y.go'' ''bad'') =
     ([], Some (Error ''expected declaration'')) \<and>
   File_String demo_fmt (demo_file ''/b/y.go'' ''bad'') =
     ''// Formatting error: expected declaration'' \<and>
   File_Format demo_fmt (demo_file ''/a/x.go'' ''package p // x'') =
     (''package p // x'', None) \<and>
   File_String demo_fmt (demo_file ''/a/x.go'' ''package p // x'') = ''package p // x''"
proof -
  have bad: "File_Format demo_fmt (demo_file ''/b/y.go'' ''bad'') =
      ([], Some (Error ''expected declaration''))"
    by (simp add: demo_defs)
  have good: "File_Format demo_fmt (demo_file ''/a/x.go'' ''package p // x'') =
      (''package p // x'', None)"
    by (simp add: demo_defs)
  from bad good
    File_String_total [of demo_fmt "demo_file ''/b/y.go'' ''bad''" "[]"
      "Error ''expected declaration''"]
    File_String_total [of demo_fmt "demo_file ''/a/x.go'' ''package p // x''"
      "''package p // x''"]
  show ?thesis by simp
qed

end
